theory Spec2Isabelle
  imports Complex_Main "HOL-Library.Sublist"
begin

section \<open>The duplicate tracker (utils/duplicateTracker)\<close>

text \<open>
  The tracker is a class with one mutable field, \<open>consecutiveDuplicates\<close>, and two
  read-only ones. JavaScript numbers that only ever hold integers are modelled as \<open>int\<close>.
  Mutation is explicit: every method takes the tracker and returns the new one.
\<close>

record DuplicateTracker =
  consecutiveDuplicates :: int
  maxConsecutiveDuplicates :: int
  tableName :: string

text \<open>The constructor; the source's default arguments are \<open>5\<close> and \<open>news\<close>.\<close>

definition new_DuplicateTracker :: "int \<Rightarrow> string \<Rightarrow> DuplicateTracker" where
  "new_DuplicateTracker maxDup tbl =
     \<lparr>consecutiveDuplicates = 0, maxConsecutiveDuplicates = maxDup, tableName = tbl\<rparr>"

definition createDuplicateTracker :: DuplicateTracker where
  "createDuplicateTracker = new_DuplicateTracker 5 ''news''"

text \<open>
  What the awaited store query \<open>select('*', {count: 'exact', head: true}).eq('url', url)\<close>
  can do: reject (the \<open>await\<close> throws), or resolve to an object whose \<open>count\<close> is a number,
  or \<open>null\<close> when the store reported an error in the response instead of throwing.
\<close>

datatype lookup = LookupThrows | LookupAnswer "int option"

text \<open>\<open>checkDuplicate\<close>: \<open>(count || 0) > 0\<close> inside \<open>try\<close>, \<open>false\<close> in the \<open>catch\<close>.\<close>

definition checkDuplicate :: "lookup \<Rightarrow> bool" where
  "checkDuplicate q =
     (case q of
        LookupThrows \<Rightarrow> False
      | LookupAnswer c \<Rightarrow> (case c of None \<Rightarrow> 0 | Some n \<Rightarrow> if n = 0 then 0 else n) > 0)"

record check_result =
  isDuplicate :: bool
  shouldStop :: bool

text \<open>\<open>processCheck\<close>, with the answer of the store query for the url as its input.\<close>

definition processCheck :: "lookup \<Rightarrow> DuplicateTracker \<Rightarrow> check_result \<times> DuplicateTracker" where
  "processCheck q t =
     (let isDup = checkDuplicate q in
      if isDup then
        (let t' = t\<lparr>consecutiveDuplicates := consecutiveDuplicates t + 1\<rparr> in
         if consecutiveDuplicates t' \<ge> maxConsecutiveDuplicates t'
         then (\<lparr>isDuplicate = True, shouldStop = True\<rparr>, t')
         else (\<lparr>isDuplicate = isDup, shouldStop = False\<rparr>, t'))
      else (\<lparr>isDuplicate = isDup, shouldStop = False\<rparr>, t\<lparr>consecutiveDuplicates := 0\<rparr>))"

definition reset :: "DuplicateTracker \<Rightarrow> DuplicateTracker" where
  "reset t = t\<lparr>consecutiveDuplicates := 0\<rparr>"

definition getConsecutiveCount :: "DuplicateTracker \<Rightarrow> int" where
  "getConsecutiveCount t = consecutiveDuplicates t"

definition tracker_shouldStop :: "DuplicateTracker \<Rightarrow> bool" where
  "tracker_shouldStop t = (consecutiveDuplicates t \<ge> maxConsecutiveDuplicates t)"

text \<open>
  A caller that presents a sequence of urls to one tracker: the answers of the store
  queries, in order, each handed to \<open>processCheck\<close> on the tracker the previous call left.
\<close>

fun processChecks :: "lookup list \<Rightarrow> DuplicateTracker \<Rightarrow> check_result list \<times> DuplicateTracker" where
  "processChecks [] t = ([], t)"
| "processChecks (q # qs) t =
     (let (r, t') = processCheck q t; (rs, t'') = processChecks qs t' in (r # rs, t''))"

text \<open>The number of duplicate observations at the end of a sequence, back to the last new one.\<close>

definition trailingDuplicates :: "lookup list \<Rightarrow> nat" where
  "trailingDuplicates qs = length (takeWhile checkDuplicate (rev qs))"


text \<open>
  The call of \<open>processCheck\<close> for the observation \<open>q\<close> on a tracker created with
  threshold \<open>N\<close> that has already been fed the observations \<open>ps\<close>.
\<close>

definition observe :: "int \<Rightarrow> string \<Rightarrow> lookup list \<Rightarrow> lookup \<Rightarrow> check_result \<times> DuplicateTracker" where
  "observe N tbl ps q = processCheck q (snd (processChecks ps (new_DuplicateTracker N tbl)))"

text \<open>Two sample answers of the store: one row with the url, and none.\<close>

definition dupQ :: lookup where
  "dupQ = LookupAnswer (Some 1)"

definition newQ :: lookup where
  "newQ = LookupAnswer (Some 0)"

section \<open>Strings\<close>

text \<open>
  Strings are \<open>char list\<close>. \<open>str_includes\<close> is \<open>String.prototype.includes\<close>: the argument
  occurs as a contiguous run. \<open>toLowerCase\<close> and \<open>trim\<close> are modelled on ASCII.
\<close>

primrec str_includes :: "string \<Rightarrow> string \<Rightarrow> bool" where
  "str_includes [] w = (w = [])"
| "str_includes (c # cs) w = (prefix w (c # cs) \<or> str_includes cs w)"

definition toLowerChar :: "char \<Rightarrow> char" where
  "toLowerChar c =
     (case map_of (zip ''ABCDEFGHIJKLMNOPQRSTUVWXYZ'' ''abcdefghijklmnopqrstuvwxyz'') c of
        Some l \<Rightarrow> l
      | None \<Rightarrow> c)"

definition toLowerCase :: "string \<Rightarrow> string" where
  "toLowerCase s = map toLowerChar s"

definition isSpace :: "char \<Rightarrow> bool" where
  "isSpace c = (c \<in> set [CHR '' '', CHR 0x09, CHR 0x0A, CHR 0x0B, CHR 0x0C, CHR 0x0D])"

definition trim :: "string \<Rightarrow> string" where
  "trim s = rev (dropWhile isSpace (rev (dropWhile isSpace s)))"

text \<open>The decimal rendering of a number inside a template literal.\<close>

fun string_of_nat :: "nat \<Rightarrow> string" where
  "string_of_nat n =
     (if n < 10 then [''0123456789'' ! n]
      else string_of_nat (n div 10) @ [''0123456789'' ! (n mod 10)])"

declare string_of_nat.simps [simp del]

definition string_of_int :: "int \<Rightarrow> string" where
  "string_of_int i = (if i < 0 then CHR ''-'' # string_of_nat (nat (- i)) else string_of_nat (nat i))"

section \<open>Thrown values\<close>

text \<open>
  What a \<open>catch (error)\<close> clause of the services can receive, reduced to the properties
  the code reads: whether it is an \<open>Error\<close> instance, \<open>statusCode\<close>, \<open>message\<close>,
  \<open>body.retry_after\<close> and \<open>body.detail\<close>; \<open>None\<close> is \<open>undefined\<close>.
\<close>

record js_error =
  instanceOfError :: bool
  statusCode :: "int option"
  message :: "string option"
  body_retry_after :: "int option"
  body_detail :: "string option"

definition new_Error :: "string \<Rightarrow> js_error" where
  "new_Error m = \<lparr>instanceOfError = True, statusCode = None, message = Some m,
                  body_retry_after = None, body_detail = None\<rparr>"

section \<open>The embedding client (JobyAviationService.generateEmbedding)\<close>

type_synonym vector = "real list"

text \<open>
  One call of \<open>voyageai.embed\<close>: it rejects with an error, or resolves with a response in
  which \<open>data?.[0]?.embedding\<close> is a vector or \<open>undefined\<close>.
\<close>

datatype embed_outcome = EmbedRejects js_error | EmbedResolves "vector option"

text \<open>The three places that call \<open>this.delay\<close>, with the milliseconds they wait.\<close>

datatype pause = InitialDelay int | BackoffDelay int | RetryAfterDelay int

text \<open>
  \<open>Math.min(20000 * Math.pow(2, attempt - 1), 60000)\<close>; the source evaluates it only
  when \<open>attempt > 0\<close>.
\<close>

definition backoffDelay :: "nat \<Rightarrow> int" where
  "backoffDelay attempt = min (20000 * 2 ^ (attempt - 1)) 60000"

definition is429 :: "js_error \<Rightarrow> bool" where
  "is429 error =
     (statusCode error = Some 429
      \<or> (case message error of None \<Rightarrow> False | Some m \<Rightarrow> str_includes m ''429''))"

text \<open>\<open>error?.body?.retry_after || 20\<close>, times 1000.\<close>

definition retryAfterMs :: "js_error \<Rightarrow> int" where
  "retryAfterMs error =
     (case body_retry_after error of None \<Rightarrow> 20 | Some r \<Rightarrow> if r = 0 then 20 else r) * 1000"

text \<open>\<open>error?.body?.detail || error.message\<close> inside the template literal.\<close>

definition detailOrMessage :: "js_error \<Rightarrow> string" where
  "detailOrMessage error =
     (case body_detail error of
        Some d \<Rightarrow> if d \<noteq> [] then d
                  else (case message error of None \<Rightarrow> ''undefined'' | Some m \<Rightarrow> m)
      | None \<Rightarrow> (case message error of None \<Rightarrow> ''undefined'' | Some m \<Rightarrow> m))"

definition rateLimitMessage :: "int \<Rightarrow> js_error \<Rightarrow> string" where
  "rateLimitMessage maxRetries error =
     ''Rate limit exceeded after '' @ string_of_int maxRetries @ '' attempts. ''
       @ detailOrMessage error"

text \<open>
  The \<open>while (attempt < maxRetries)\<close> loop. \<open>provider k\<close> is the outcome of the call made
  while \<open>attempt = k\<close>; \<open>ds\<close> collects the pauses in the order they are awaited. The result
  is the pauses and either the thrown value (\<open>Inl\<close>) or the vector returned.
\<close>

function generateEmbedding_loop ::
  "(nat \<Rightarrow> embed_outcome) \<Rightarrow> int \<Rightarrow> nat \<Rightarrow> pause list \<Rightarrow> pause list \<times> (js_error + vector)" where
  "generateEmbedding_loop provider maxRetries attempt ds =
     (if int attempt < maxRetries then
        (let ds1 = ds @ [if attempt > 0 then BackoffDelay (backoffDelay attempt)
                         else InitialDelay 20000]
         in case provider attempt of
              EmbedResolves v \<Rightarrow> (ds1, Inr (case v of Some e \<Rightarrow> e | None \<Rightarrow> []))
            | EmbedRejects error \<Rightarrow>
                (if is429 error then
                   (if int (attempt + 1) < maxRetries
                    then generateEmbedding_loop provider maxRetries (attempt + 1)
                           (ds1 @ [RetryAfterDelay (retryAfterMs error)])
                    else (ds1, Inl (new_Error (rateLimitMessage maxRetries error))))
                 else (ds1, Inl error)))
      else (ds, Inl (new_Error ''Failed to generate embedding after all retries'')))"
  by pat_completeness auto
termination
  by (relation "measure (\<lambda>(provider, maxRetries, attempt, ds). nat (maxRetries - int attempt))") auto

declare generateEmbedding_loop.simps [simp del]

definition generateEmbedding :: "(nat \<Rightarrow> embed_outcome) \<Rightarrow> int \<Rightarrow> pause list \<times> (js_error + vector)" where
  "generateEmbedding provider retries = generateEmbedding_loop provider retries 0 []"

text \<open>The pauses of a run that came from the capped exponential backoff.\<close>

fun backoffs :: "pause list \<Rightarrow> int list" where
  "backoffs [] = []"
| "backoffs (BackoffDelay d # ps) = d # backoffs ps"
| "backoffs (InitialDelay d # ps) = backoffs ps"
| "backoffs (RetryAfterDelay d # ps) = backoffs ps"

text \<open>A provider that answers every call with a 429 that carries no retry-after hint.\<close>

definition throttled :: js_error where
  "throttled = \<lparr>instanceOfError = True, statusCode = Some 429,
                 message = Some ''Too Many Requests'', body_retry_after = None,
                 body_detail = None\<rparr>"

section \<open>The sentiment classifier (JobyAviationService.analyzeSentiment)\<close>

definition positiveWords :: "string list" where
  "positiveWords = [''success'', ''achievement'', ''milestone'', ''demonstration'',
                    ''partnership'', ''innovation'', ''breakthrough'']"

definition negativeWords :: "string list" where
  "negativeWords = [''challenge'', ''delay'', ''issue'', ''concern'', ''risk'']"

definition positiveCount :: "string \<Rightarrow> nat" where
  "positiveCount content = length (filter (\<lambda>word. str_includes (toLowerCase content) word) positiveWords)"

definition negativeCount :: "string \<Rightarrow> nat" where
  "negativeCount content = length (filter (\<lambda>word. str_includes (toLowerCase content) word) negativeWords)"

definition analyzeSentiment :: "string \<Rightarrow> string" where
  "analyzeSentiment content =
     (if positiveCount content > negativeCount content then ''positive''
      else if negativeCount content > positiveCount content then ''negative''
      else ''neutral'')"


section \<open>The store\<close>

text \<open>
  A row of the \<open>news\<close> table, with the columns the properties below read; the other
  columns of \<open>NewsData\<close> (dates, categories, tags, metadata) are left out, and with them
  the \<open>category\<close> argument of \<open>processAndStoreDirectUrl\<close>, which only feeds them.
  The store maps a table name to its rows, in insertion order.
\<close>

record NewsRow =
  row_url :: string
  row_title :: string
  row_content :: string
  row_sentiment :: string
  row_embedding :: vector

type_synonym db = "string \<Rightarrow> NewsRow list"

definition countUrl :: "db \<Rightarrow> string \<Rightarrow> string \<Rightarrow> int" where
  "countUrl d tbl u = int (length (filter (\<lambda>r. row_url r = u) (d tbl)))"

record JobyNewsArticle =
  a_url :: string
  a_title :: string

record JobyNewsContent =
  c_title :: string
  c_content :: string

text \<open>
  Everything outside the process that a run of the Joby service depends on. The schema
  of the store is not part of the repository, so whether the \<open>news\<close> table declares
  \<open>url\<close> unique is a parameter. \<open>fetch\<close> is \<open>fetchArticleContentDirect\<close>, which catches
  its own errors and returns \<open>null\<close>. \<open>embed content k\<close> is the provider's answer to the
  \<open>k\<close>-th call for a text. \<open>enumerate category\<close> is the outcome of the navigation,
  \<open>selectNewsCategory\<close>, \<open>loadAllNewsArticles\<close> and \<open>extractNewsArticles\<close> for a category:
  the first error any of them throws, or the articles found.
\<close>

datatype fault = Rejects | ErrorResponse

record env =
  urlUnique :: bool
  lookupFault :: "string \<Rightarrow> fault option"
  fetch :: "string \<Rightarrow> JobyNewsContent option"
  embed :: "string \<Rightarrow> nat \<Rightarrow> embed_outcome"
  launchFails :: "js_error option"
  newPageFails :: "js_error option"
  pageSetupFails :: "js_error option"
  enumerate :: "string \<Rightarrow> js_error + JobyNewsArticle list"
  pageCloseFails :: "js_error option"
  browserCloseFails :: "js_error option"

definition selectCount :: "env \<Rightarrow> db \<Rightarrow> string \<Rightarrow> string \<Rightarrow> lookup" where
  "selectCount e d tbl u =
     (case lookupFault e u of
        Some Rejects \<Rightarrow> LookupThrows
      | Some ErrorResponse \<Rightarrow> LookupAnswer None
      | None \<Rightarrow> LookupAnswer (Some (countUrl d tbl u)))"

text \<open>The error object the store answers an insert with when \<open>url\<close> is unique and taken.\<close>

definition uniqueViolation :: js_error where
  "uniqueViolation = \<lparr>instanceOfError = False, statusCode = None,
      message = Some ''duplicate key value violates unique constraint'',
      body_retry_after = None, body_detail = None\<rparr>"

text \<open>
  \<open>storeNews\<close>: \<open>insert([...]).select('id').single()\<close> into \<open>news\<close>; a reported error is
  thrown, otherwise the id of the new row is returned (its position, here).
\<close>

definition storeNews :: "env \<Rightarrow> NewsRow \<Rightarrow> db \<Rightarrow> (js_error + nat) \<times> db" where
  "storeNews e newsData d =
     (if urlUnique e \<and> countUrl d ''news'' (row_url newsData) > 0
      then (Inl uniqueViolation, d)
      else (Inr (length (d ''news'')), d(''news'' := d ''news'' @ [newsData])))"

section \<open>The Joby service (services/jobyAviationService)\<close>

text \<open>
  The objects a run mutates: the store, the tracker created by the run, and the two
  fields of the service that hold the page and the browser (\<open>True\<close>: not \<open>null\<close>, that is
  opened and not yet closed).
\<close>

record world =
  store :: db
  tracker :: DuplicateTracker
  newsPage :: bool
  newsBrowser :: bool

record item_result =
  processed :: bool
  itemIsDuplicate :: bool

text \<open>\<open>recordExists\<close> of the Joby service: the same query, always on \<open>news\<close>.\<close>

definition recordExists :: "env \<Rightarrow> db \<Rightarrow> string \<Rightarrow> bool" where
  "recordExists e d u = checkDuplicate (selectCount e d ''news'' u)"

text \<open>
  The \<open>try\<close> block of \<open>processAndStoreDirectUrl\<close> from the fetch on. \<open>Inl\<close> is an error
  thrown inside the block.
\<close>

definition storeFetched :: "env \<Rightarrow> string \<Rightarrow> world \<Rightarrow> (js_error + item_result) \<times> world" where
  "storeFetched e u w =
     (case fetch e u of
        None \<Rightarrow> (Inr \<lparr>processed = False, itemIsDuplicate = False\<rparr>, w)
      | Some fullContent \<Rightarrow>
          if c_title fullContent = [] \<and> c_content fullContent = []
          then (Inr \<lparr>processed = False, itemIsDuplicate = False\<rparr>, w)
          else if c_content fullContent = [] \<or> length (trim (c_content fullContent)) = 0
          then (Inr \<lparr>processed = False, itemIsDuplicate = False\<rparr>, w)
          else
            (case snd (generateEmbedding (embed e (c_content fullContent)) 3) of
               Inl error \<Rightarrow> (Inl error, w)
             | Inr embedding \<Rightarrow>
                 (case storeNews e
                         \<lparr>row_url = u,
                          row_title = (if c_title fullContent = [] then ''Joby Aviation Content''
                                       else c_title fullContent),
                          row_content = c_content fullContent,
                          row_sentiment = analyzeSentiment (c_content fullContent),
                          row_embedding = embedding\<rparr> (store w) of
                    (Inl error, d) \<Rightarrow> (Inl error, w\<lparr>store := d\<rparr>)
                  | (Inr documentId, d) \<Rightarrow>
                      (Inr \<lparr>processed = True, itemIsDuplicate = False\<rparr>, w\<lparr>store := d\<rparr>))))"

text \<open>
  The whole \<open>try\<close> block. \<open>useTracker\<close> says whether the optional \<open>duplicateTracker\<close>
  argument was passed; the tracker object itself lives in the world.
\<close>

definition processAndStoreDirectUrl_try ::
  "env \<Rightarrow> string \<Rightarrow> bool \<Rightarrow> world \<Rightarrow> (js_error + item_result) \<times> world" where
  "processAndStoreDirectUrl_try e u useTracker w =
     (if useTracker then
        (let (checkResult, t') =
               processCheck (selectCount e (store w) (tableName (tracker w)) u) (tracker w);
             w1 = w\<lparr>tracker := t'\<rparr>
         in if shouldStop checkResult
            then (Inr \<lparr>processed = False, itemIsDuplicate = True\<rparr>, w1)
            else if isDuplicate checkResult
            then (Inr \<lparr>processed = False, itemIsDuplicate = True\<rparr>, w1)
            else storeFetched e u w1)
      else if recordExists e (store w) u
      then (Inr \<lparr>processed = False, itemIsDuplicate = True\<rparr>, w)
      else storeFetched e u w)"

text \<open>The method: the \<open>try\<close> block, and the \<open>catch\<close> that turns any error into a result.\<close>

definition processAndStoreDirectUrl :: "env \<Rightarrow> string \<Rightarrow> bool \<Rightarrow> world \<Rightarrow> item_result \<times> world" where
  "processAndStoreDirectUrl e u useTracker w =
     (case processAndStoreDirectUrl_try e u useTracker w of
        (Inl error, w') \<Rightarrow> (\<lparr>processed = False, itemIsDuplicate = False\<rparr>, w')
      | (Inr r, w') \<Rightarrow> (r, w'))"

definition processAndStoreArticle :: "env \<Rightarrow> JobyNewsArticle \<Rightarrow> bool \<Rightarrow> world \<Rightarrow> item_result \<times> world" where
  "processAndStoreArticle e article useTracker w =
     processAndStoreDirectUrl e (a_url article) useTracker w"

text \<open>
  \<open>initializeNewsBrowser\<close>: the launch, the new page, then its viewport, timeout and
  user agent; an error of any of them is logged and rethrown.
\<close>

definition initializeNewsBrowser :: "env \<Rightarrow> world \<Rightarrow> (js_error + unit) \<times> world" where
  "initializeNewsBrowser e w =
     (case launchFails e of
        Some error \<Rightarrow> (Inl error, w)
      | None \<Rightarrow>
          (let w1 = w\<lparr>newsBrowser := True\<rparr> in
           case newPageFails e of
             Some error \<Rightarrow> (Inl error, w1)
           | None \<Rightarrow>
               (let w2 = w1\<lparr>newsPage := True\<rparr> in
                case pageSetupFails e of
                  Some error \<Rightarrow> (Inl error, w2)
                | None \<Rightarrow> (Inr (), w2))))"

text \<open>
  \<open>cleanupNewsBrowser\<close>: closes the page, then the browser, inside one \<open>try\<close>; the
  \<open>catch\<close> only logs, so an error from closing the page skips closing the browser.
\<close>

definition cleanupNewsBrowser :: "env \<Rightarrow> world \<Rightarrow> world" where
  "cleanupNewsBrowser e w =
     (let afterPage =
            (if newsPage w then
               (case pageCloseFails e of
                  Some error \<Rightarrow> Inl error
                | None \<Rightarrow> Inr (w\<lparr>newsPage := False\<rparr>))
             else Inr w)
      in case afterPage of
           Inl error \<Rightarrow> w
         | Inr w1 \<Rightarrow>
             (if newsBrowser w1 then
                (case browserCloseFails e of
                   Some error \<Rightarrow> w1
                 | None \<Rightarrow> w1\<lparr>newsBrowser := False\<rparr>)
              else w1))"


text \<open>The counters of one category, and the variables of the run declared outside the loop.\<close>

record counts =
  processedCount :: int
  skippedCount :: int
  failedCount :: int

record category_result =
  cr_category :: string
  cr_total :: int
  cr_processed :: int
  cr_skipped :: int
  cr_failed :: int

record locals =
  totalProcessed :: int
  totalSkipped :: int
  totalFailed :: int
  categoryResults :: "category_result list"
  allProcessedDocuments :: "JobyNewsArticle list"
  stoppedEarly :: bool

text \<open>
  The \<open>for (const article of articles)\<close> loop. \<open>processAndStoreArticle\<close> returns a result
  on every path, so the \<open>catch\<close> of the loop body, which would count a failure, is never
  entered. The first branch is the \<open>break\<close>.
\<close>

fun processArticles ::
  "env \<Rightarrow> JobyNewsArticle list \<Rightarrow> counts \<times> locals \<times> world \<Rightarrow> counts \<times> locals \<times> world" where
  "processArticles e [] s = s"
| "processArticles e (article # rest) (c, l, w) =
     (let (result, w') = processAndStoreArticle e article True w in
      if tracker_shouldStop (tracker w')
      then (c, l\<lparr>stoppedEarly := True\<rparr>, w')
      else if processed result
      then processArticles e rest
             (c\<lparr>processedCount := processedCount c + 1\<rparr>,
              l\<lparr>allProcessedDocuments := allProcessedDocuments l @ [article]\<rparr>, w')
      else processArticles e rest (c\<lparr>skippedCount := skippedCount c + 1\<rparr>, l, w'))"

text \<open>
  The \<open>for (const category of categories)\<close> loop. An error of the enumeration leaves the
  loop and the \<open>try\<close> block; an early stop leaves the loop before the category's counters
  are added to the totals.
\<close>

fun processCategories ::
  "env \<Rightarrow> string list \<Rightarrow> locals \<times> world \<Rightarrow> (js_error + locals) \<times> world" where
  "processCategories e [] (l, w) = (Inr l, w)"
| "processCategories e (category # rest) (l, w) =
     (case enumerate e category of
        Inl error \<Rightarrow> (Inl error, w)
      | Inr articles \<Rightarrow>
          (let (c, l1, w1) =
                 processArticles e articles
                   (\<lparr>processedCount = 0, skippedCount = 0, failedCount = 0\<rparr>, l, w)
           in if stoppedEarly l1 then (Inr l1, w1)
              else processCategories e rest
                     (l1\<lparr>categoryResults := categoryResults l1 @
                            [\<lparr>cr_category = category, cr_total = int (length articles),
                              cr_processed = processedCount c, cr_skipped = skippedCount c,
                              cr_failed = failedCount c\<rparr>],
                         totalProcessed := totalProcessed l1 + processedCount c,
                         totalSkipped := totalSkipped l1 + skippedCount c,
                         totalFailed := totalFailed l1 + failedCount c\<rparr>, w1)))"

record jobySummary =
  sum_success :: bool
  sum_totalDocuments :: int
  sum_processed :: int
  sum_skipped :: int
  sum_failed :: int
  sum_stoppedEarly :: bool
  sum_consecutiveDuplicates :: int
  sum_categoryResults :: "category_result list"
  sum_documents :: "JobyNewsArticle list"

text \<open>
  \<open>processJobySpecificData\<close>: \<open>Inl\<close> is the error rethrown by its \<open>catch\<close>. The cleanup
  is the statement after the category loop, inside the \<open>try\<close> block.
\<close>

definition processJobySpecificData :: "env \<Rightarrow> world \<Rightarrow> (js_error + jobySummary) \<times> world" where
  "processJobySpecificData e w0 =
     (case initializeNewsBrowser e w0 of
        (Inl error, w1) \<Rightarrow> (Inl error, w1)
      | (Inr _, w1) \<Rightarrow>
          (let w2 = w1\<lparr>tracker := new_DuplicateTracker 5 ''news_duplicate''\<rparr> in
           case processCategories e [''press-releases'', ''blog-posts'']
                  (\<lparr>totalProcessed = 0, totalSkipped = 0, totalFailed = 0,
                    categoryResults = [], allProcessedDocuments = [],
                    stoppedEarly = False\<rparr>, w2) of
             (Inl error, w3) \<Rightarrow> (Inl error, w3)
           | (Inr l, w3) \<Rightarrow>
               (let w4 = cleanupNewsBrowser e w3 in
                (Inr \<lparr>sum_success = (totalProcessed l > 0),
                      sum_totalDocuments = int (length (allProcessedDocuments l)),
                      sum_processed = totalProcessed l,
                      sum_skipped = totalSkipped l,
                      sum_failed = totalFailed l,
                      sum_stoppedEarly = stoppedEarly l,
                      sum_consecutiveDuplicates = getConsecutiveCount (tracker w4),
                      sum_categoryResults = categoryResults l,
                      sum_documents = allProcessedDocuments l\<rparr>, w4))))"

section \<open>The entry point (index)\<close>

text \<open>
  An entry of \<open>SERVICE_REGISTRY\<close>: the display name, and the outcome of calling the
  registered method of the service, an error thrown or the summary returned.
\<close>

record 'r service_config =
  svc_name :: string
  svc_run :: "js_error + 'r"

text \<open>The registry of the source, given what the two registered methods do when called.\<close>

definition SERVICE_REGISTRY ::
  "js_error + 'r \<Rightarrow> js_error + 'r \<Rightarrow> (string \<times> 'r service_config) list" where
  "SERVICE_REGISTRY joby archer =
     [(''joby'', \<lparr>svc_name = ''Joby Aviation'', svc_run = joby\<rparr>),
      (''archer'', \<lparr>svc_name = ''Archer Aviation'', svc_run = archer\<rparr>)]"

fun join_comma :: "string list \<Rightarrow> string" where
  "join_comma [] = []"
| "join_comma [x] = x"
| "join_comma (x # y # ys) = x @ '', '' @ join_comma (y # ys)"

text \<open>
  \<open>runService\<close>: throws for an unknown key, otherwise calls the method; the \<open>catch\<close> logs
  and rethrows. The trace records the names of the services whose method was called.
\<close>

definition runService ::
  "(string \<times> 'r service_config) list \<Rightarrow> string \<Rightarrow> string list
     \<Rightarrow> (js_error + bool \<times> 'r) \<times> string list" where
  "runService reg serviceKey trace =
     (case map_of reg serviceKey of
        None \<Rightarrow>
          (Inl (new_Error (''Unknown service: '' @ serviceKey @ ''. Available services: ''
                            @ join_comma (map fst reg))), trace)
      | Some serviceConfig \<Rightarrow>
          (case svc_run serviceConfig of
             Inr result \<Rightarrow> (Inr (True, result), trace @ [svc_name serviceConfig])
           | Inl error \<Rightarrow> (Inl error, trace @ [svc_name serviceConfig])))"

record service_result =
  service :: string
  success :: bool
  error :: "string option"

text \<open>
  The loop of \<open>runAllServices\<close> over the entries of the registry, and the function: it
  returns whether every entry succeeded; the results it logs and the trace are returned
  with it.
\<close>

fun runAllServices_loop ::
  "(string \<times> 'r service_config) list \<Rightarrow> (string \<times> 'r service_config) list
     \<Rightarrow> service_result list \<times> string list \<Rightarrow> service_result list \<times> string list" where
  "runAllServices_loop reg [] (results, trace) = (results, trace)"
| "runAllServices_loop reg ((key, config) # rest) (results, trace) =
     (case runService reg key trace of
        (Inr r, trace') \<Rightarrow>
          runAllServices_loop reg rest
            (results @ [\<lparr>service = svc_name config, success = True, error = None\<rparr>], trace')
      | (Inl err, trace') \<Rightarrow>
          runAllServices_loop reg rest
            (results @ [\<lparr>service = svc_name config, success = False,
                          error = (if instanceOfError err then message err
                                   else Some ''Unknown error'')\<rparr>], trace'))"

definition runAllServices ::
  "(string \<times> 'r service_config) list \<Rightarrow> bool \<times> service_result list \<times> string list" where
  "runAllServices reg =
     (let (results, trace) = runAllServices_loop reg reg ([], [])
      in (list_all success results, results, trace))"


section \<open>Sample runs\<close>

text \<open>
  Concrete environments and stores on which the properties below are evaluated. In
  \<open>healthy\<close> nothing fails: every fetch returns an article and the provider answers the
  first call with a vector.
\<close>

definition mkRow :: "string \<Rightarrow> NewsRow" where
  "mkRow u = \<lparr>row_url = u, row_title = ''stored'', row_content = ''stored'',
              row_sentiment = ''neutral'', row_embedding = []\<rparr>"

definition mkArticle :: "string \<Rightarrow> JobyNewsArticle" where
  "mkArticle u = \<lparr>a_url = u, a_title = u\<rparr>"

definition emptyStore :: db where
  "emptyStore tbl = []"

definition healthy :: env where
  "healthy = \<lparr>urlUnique = True, lookupFault = (\<lambda>u. None),
      fetch = (\<lambda>u. Some \<lparr>c_title = ''Title'', c_content = ''Flight test''\<rparr>),
      embed = (\<lambda>content k. EmbedResolves (Some [1])),
      launchFails = None, newPageFails = None, pageSetupFails = None,
      enumerate = (\<lambda>category. Inr []),
      pageCloseFails = None, browserCloseFails = None\<rparr>"

text \<open>An enumeration that finds the given urls under press releases and no blog posts.\<close>

definition pressReleases :: "string list \<Rightarrow> string \<Rightarrow> js_error + JobyNewsArticle list" where
  "pressReleases urls category =
     (if category = ''press-releases'' then Inr (map mkArticle urls) else Inr [])"

text \<open>The service before a run, and inside a run after the browser and tracker are set up.\<close>

definition idle :: "db \<Rightarrow> world" where
  "idle d = \<lparr>store = d, tracker = createDuplicateTracker, newsPage = False, newsBrowser = False\<rparr>"

definition started :: "db \<Rightarrow> world" where
  "started d = \<lparr>store = d, tracker = new_DuplicateTracker 5 ''news_duplicate'',
                 newsPage = True, newsBrowser = True\<rparr>"

definition navigationTimeout :: js_error where
  "navigationTimeout = new_Error ''Navigation timeout of 120000 ms exceeded''"

definition serverError :: js_error where
  "serverError = \<lparr>instanceOfError = True, statusCode = Some 500,
      message = Some ''Internal Server Error'', body_retry_after = None, body_detail = None\<rparr>"

text \<open>
  The scenario of the specification: eight candidates \<open>A\<close> to \<open>H\<close>, of which \<open>C\<close> to \<open>G\<close>
  are already stored (in the table the tracker of the run queries and in \<open>news\<close>).
\<close>

definition scenarioStore :: db where
  "scenarioStore tbl =
     (if tbl = ''news'' \<or> tbl = ''news_duplicate''
      then map mkRow [''C'', ''D'', ''E'', ''F'', ''G''] else [])"

definition scenarioEnv :: env where
  "scenarioEnv = healthy\<lparr>enumerate :=
      pressReleases [''A'', ''B'', ''C'', ''D'', ''E'', ''F'', ''G'', ''H'']\<rparr>"

text \<open>A site with the single article \<open>A\<close>, and the store a first run over it leaves.\<close>

definition oneArticle :: env where
  "oneArticle = healthy\<lparr>enumerate := pressReleases [''A'']\<rparr>"

definition storedOnce :: db where
  "storedOnce = store (snd (processJobySpecificData oneArticle (idle emptyStore)))"

text \<open>The entry \<open>runAllServices\<close> pushes for a source, by what the source's method did.\<close>

definition reportedAs :: "'r service_config \<Rightarrow> service_result" where
  "reportedAs config =
     (case svc_run config of
        Inr result \<Rightarrow> \<lparr>service = svc_name config, success = True, error = None\<rparr>
      | Inl err \<Rightarrow>
          \<lparr>service = svc_name config, success = False,
           error = (if instanceOfError err then message err else Some ''Unknown error'')\<rparr>)"

definition archerOk :: jobySummary where
  "archerOk = \<lparr>sum_success = True, sum_totalDocuments = 1, sum_processed = 1, sum_skipped = 0,
      sum_failed = 0, sum_stoppedEarly = False, sum_consecutiveDuplicates = 0,
      sum_categoryResults = [], sum_documents = [mkArticle ''https://news.archer.com/a'']\<rparr>"

section \<open>Properties of the duplicate tracker\<close>

lemma processChecks_append:
  "processChecks (ps @ qs) t =
     (let (rs, t') = processChecks ps t; (rs', t'') = processChecks qs t' in (rs @ rs', t''))"
  by (induction ps arbitrary: t) (auto split: prod.splits)

lemma processCheck_max:
  "maxConsecutiveDuplicates (snd (processCheck q t)) = maxConsecutiveDuplicates t"
  by (auto simp: processCheck_def Let_def)

lemma processCheck_counter:
  "consecutiveDuplicates (snd (processCheck q t)) =
     (if checkDuplicate q then consecutiveDuplicates t + 1 else 0)"
  by (auto simp: processCheck_def Let_def)

lemma processCheck_stop:
  "shouldStop (fst (processCheck q t)) =
     (checkDuplicate q \<and> maxConsecutiveDuplicates t \<le> consecutiveDuplicates t + 1)"
  by (auto simp: processCheck_def Let_def)

lemma processChecks_snoc:
  "processChecks (ps @ [q]) t =
     (fst (processChecks ps t) @ [fst (processCheck q (snd (processChecks ps t)))],
      snd (processCheck q (snd (processChecks ps t))))"
  by (simp add: processChecks_append split: prod.splits)

lemma processChecks_max:
  "maxConsecutiveDuplicates (snd (processChecks qs t)) = maxConsecutiveDuplicates t"
  by (induction qs rule: rev_induct) (simp_all add: processChecks_snoc processCheck_max)

lemma trailingDuplicates_snoc:
  "trailingDuplicates (ps @ [q]) = (if checkDuplicate q then Suc (trailingDuplicates ps) else 0)"
  by (simp add: trailingDuplicates_def)

text \<open>On a tracker that starts at zero the counter is the length of the current run.\<close>

lemma processChecks_counter:
  "consecutiveDuplicates t = 0 \<Longrightarrow>
   consecutiveDuplicates (snd (processChecks qs t)) = int (trailingDuplicates qs)"
proof (induction qs rule: rev_induct)
  case Nil
  then show ?case by (simp add: trailingDuplicates_def)
next
  case (snoc q qs)
  then show ?case
    by (simp add: processChecks_snoc processCheck_counter trailingDuplicates_snoc)
qed

lemma stop_iff_run:
  "shouldStop (fst (observe N tbl ps q)) \<longleftrightarrow>
     checkDuplicate q \<and> N \<le> int (trailingDuplicates (ps @ [q]))"
proof -
  let ?t = "snd (processChecks ps (new_DuplicateTracker N tbl))"
  have c: "consecutiveDuplicates ?t = int (trailingDuplicates ps)"
    by (simp add: processChecks_counter new_DuplicateTracker_def)
  have m: "maxConsecutiveDuplicates ?t = N"
    by (simp add: processChecks_max new_DuplicateTracker_def)
  show ?thesis
    by (auto simp: observe_def processCheck_stop c m trailingDuplicates_snoc)
qed

text \<open>While no call has asked to stop, the run is still shorter than the threshold.\<close>

lemma run_below_threshold:
  assumes N: "1 \<le> N"
    and nostop: "\<forall>r \<in> set (fst (processChecks ps (new_DuplicateTracker N tbl))). \<not> shouldStop r"
  shows "int (trailingDuplicates ps) < N"
proof (cases ps rule: rev_cases)
  case Nil
  then show ?thesis using N by (simp add: trailingDuplicates_def)
next
  case (snoc ps' p)
  have "\<not> shouldStop (fst (observe N tbl ps' p))"
    using nostop snoc by (simp add: processChecks_snoc observe_def)
  then have "\<not> (checkDuplicate p \<and> N \<le> int (trailingDuplicates (ps' @ [p])))"
    by (simp add: stop_iff_run)
  then show ?thesis using snoc N by (auto simp: trailingDuplicates_snoc)
qed

text \<open>
  Claim C1. On a tracker created with threshold \<open>N\<close>, after any sequence of observations,
  \<open>processCheck\<close> answers \<open>shouldStop\<close> exactly when the observation is a duplicate that
  brings the current run of consecutive duplicates to \<open>N\<close> or more; an observation that
  is not a duplicate sets the counter to 0 and answers \<open>shouldStop = false\<close>; and for
  \<open>N \<ge> 1\<close>, as long as no earlier call asked to stop, the call that does is the one on
  the \<open>N\<close>-th consecutive duplicate.
\<close>

theorem early_stop_at_threshold:
  "(shouldStop (fst (observe N tbl ps q)) \<longleftrightarrow>
      checkDuplicate q \<and> N \<le> int (trailingDuplicates (ps @ [q])))
   \<and> (\<not> checkDuplicate q \<longrightarrow>
        consecutiveDuplicates (snd (observe N tbl ps q)) = 0
        \<and> \<not> shouldStop (fst (observe N tbl ps q)))
   \<and> (1 \<le> N
        \<and> (\<forall>r \<in> set (fst (processChecks ps (new_DuplicateTracker N tbl))). \<not> shouldStop r) \<longrightarrow>
        (shouldStop (fst (observe N tbl ps q)) \<longleftrightarrow>
           checkDuplicate q \<and> int (trailingDuplicates (ps @ [q])) = N))"
proof (intro conjI)
  show a: "shouldStop (fst (observe N tbl ps q)) \<longleftrightarrow>
            checkDuplicate q \<and> N \<le> int (trailingDuplicates (ps @ [q]))"
    by (rule stop_iff_run)
  show "\<not> checkDuplicate q \<longrightarrow>
          consecutiveDuplicates (snd (observe N tbl ps q)) = 0
          \<and> \<not> shouldStop (fst (observe N tbl ps q))"
    by (simp add: observe_def processCheck_counter processCheck_stop)
  show "1 \<le> N
        \<and> (\<forall>r \<in> set (fst (processChecks ps (new_DuplicateTracker N tbl))). \<not> shouldStop r) \<longrightarrow>
        (shouldStop (fst (observe N tbl ps q)) \<longleftrightarrow>
           checkDuplicate q \<and> int (trailingDuplicates (ps @ [q])) = N)"
  proof (intro impI, elim conjE)
    assume N: "1 \<le> N"
      and ns: "\<forall>r \<in> set (fst (processChecks ps (new_DuplicateTracker N tbl))). \<not> shouldStop r"
    have "int (trailingDuplicates ps) < N"
      by (rule run_below_threshold [OF N ns])
    then show "shouldStop (fst (observe N tbl ps q)) \<longleftrightarrow>
                 checkDuplicate q \<and> int (trailingDuplicates (ps @ [q])) = N"
      using a by (auto simp: trailingDuplicates_snoc)
  qed
qed

theorem early_stop_at_threshold_witness:
  "(1::int) \<le> 5
   \<and> map shouldStop (fst (processChecks [newQ, dupQ, dupQ, dupQ, dupQ]
                              (new_DuplicateTracker 5 ''news'')))
       = [False, False, False, False, False]
   \<and> \<not> checkDuplicate newQ
   \<and> shouldStop (fst (observe 5 ''news'' [newQ, dupQ, dupQ, dupQ, dupQ] dupQ))
   \<and> consecutiveDuplicates (snd (observe 5 ''news'' [newQ, dupQ, dupQ, dupQ, dupQ] newQ)) = 0"
  using early_stop_at_threshold [of 5 "''news''" "[newQ, dupQ, dupQ, dupQ, dupQ]" dupQ]
        early_stop_at_threshold [of 5 "''news''" "[newQ, dupQ, dupQ, dupQ, dupQ]" newQ]
  by (simp add: processCheck_def checkDuplicate_def new_DuplicateTracker_def dupQ_def newQ_def
        trailingDuplicates_def)

text \<open>
  Claim C4. When the existence query fails, by throwing or by answering with an error
  and no count, \<open>checkDuplicate\<close> does not throw and \<open>processCheck\<close> returns
  \<open>isDuplicate = false\<close>, \<open>shouldStop = false\<close> and leaves the counter at 0, whatever the
  tracker held before.
\<close>

theorem fail_open_on_lookup_error:
  "processCheck LookupThrows t =
     (\<lparr>isDuplicate = False, shouldStop = False\<rparr>, t\<lparr>consecutiveDuplicates := 0\<rparr>)
   \<and> processCheck (LookupAnswer None) t =
     (\<lparr>isDuplicate = False, shouldStop = False\<rparr>, t\<lparr>consecutiveDuplicates := 0\<rparr>)"
  by (simp add: processCheck_def checkDuplicate_def)

section \<open>Properties of the embedding client and the classifier\<close>

lemma backoffs_append: "backoffs (xs @ ys) = backoffs xs @ backoffs ys"
  by (induction xs rule: backoffs.induct) simp_all

lemma backoffDelay_mono: "a \<le> b \<Longrightarrow> backoffDelay a \<le> backoffDelay b"
proof -
  assume "a \<le> b"
  then have "(2::int) ^ (a - 1) \<le> 2 ^ (b - 1)"
    by (intro power_increasing) auto
  then have "(20000::int) * 2 ^ (a - 1) \<le> 20000 * 2 ^ (b - 1)"
    by simp
  then show ?thesis
    unfolding backoffDelay_def by (rule min.mono) simp
qed

lemma backoffDelay_le: "backoffDelay a \<le> 60000"
  by (simp add: backoffDelay_def)

lemma sorted_backoffs: "sorted (map backoffDelay [i..<j])"
  by (simp add: sorted_map sorted_wrt_iff_nth_less backoffDelay_mono)

lemma loop_throttled:
  assumes thr: "\<forall>k. k < nat maxRetries \<longrightarrow>
            provider k = EmbedRejects (errs k) \<and> is429 (errs k) \<and> body_retry_after (errs k) = None"
  shows "a < nat maxRetries \<Longrightarrow>
     generateEmbedding_loop provider maxRetries a ds =
       (ds @ (if a > 0 then BackoffDelay (backoffDelay a) else InitialDelay 20000)
           # concat (map (\<lambda>k. [RetryAfterDelay 20000, BackoffDelay (backoffDelay k)])
                       [Suc a..<nat maxRetries]),
        Inl (new_Error (rateLimitMessage maxRetries (errs (nat maxRetries - 1)))))"
proof (induction "nat maxRetries - a" arbitrary: a ds)
  case 0
  then show ?case by simp
next
  case (Suc d)
  from Suc.prems thr have p: "provider a = EmbedRejects (errs a)" "is429 (errs a)"
    "body_retry_after (errs a) = None" by auto
  have lt: "int a < maxRetries" using Suc.prems by linarith
  show ?case
  proof (cases "Suc a < nat maxRetries")
    case True
    then have lt': "int (a + 1) < maxRetries" by linarith
    have d: "d = nat maxRetries - Suc a" using Suc.hyps(2) by linarith
    have up: "[Suc a..<nat maxRetries] = Suc a # [Suc (Suc a)..<nat maxRetries]"
      using True by (simp add: upt_conv_Cons)
    have step: "generateEmbedding_loop provider maxRetries a ds =
        generateEmbedding_loop provider maxRetries (Suc a)
          (ds @ [if a > 0 then BackoffDelay (backoffDelay a) else InitialDelay 20000]
              @ [RetryAfterDelay 20000])"
      by (subst generateEmbedding_loop.simps) (use lt lt' in \<open>simp add: p retryAfterMs_def Let_def\<close>)
    show ?thesis
      by (simp add: step Suc.hyps(1) [OF d True] up)
  next
    case False
    then have a: "a = nat maxRetries - 1" using Suc.prems by linarith
    have nlt: "\<not> int (a + 1) < maxRetries" using False by linarith
    have e: "[Suc a..<nat maxRetries] = []" using False by simp
    show ?thesis
      by (subst generateEmbedding_loop.simps) (use lt nlt in \<open>simp add: p e Let_def\<close>, simp add: a)
  qed
qed

lemma backoffs_concat:
  "backoffs (concat (map (\<lambda>k. [RetryAfterDelay r, BackoffDelay (f k)]) ks)) = map f ks"
  by (induction ks) simp_all

text \<open>
  Claim C9. When the provider answers every one of the \<open>maxRetries\<close> calls
  (\<open>maxRetries \<ge> 1\<close>) with a 429 that carries no retry-after hint, the backoff delays
  the client waits are \<open>min (20000 * 2 ^ (attempt - 1)) 60000\<close> for the attempts
  \<open>1, ..., maxRetries - 1\<close> in order, a non-decreasing sequence with every element at
  most 60000 ms, and the client throws an \<open>Error\<close> whose message starts with
  \<open>Rate limit exceeded after\<close>, which differs from the message of the generic failure.
\<close>

theorem backoff_sequence_and_rate_limit_error:
  assumes "1 \<le> maxRetries"
    and "\<forall>k. k < nat maxRetries \<longrightarrow>
            provider k = EmbedRejects (errs k) \<and> is429 (errs k) \<and> body_retry_after (errs k) = None"
  shows "backoffs (fst (generateEmbedding provider maxRetries)) = map backoffDelay [1..<nat maxRetries]
       \<and> sorted (backoffs (fst (generateEmbedding provider maxRetries)))
       \<and> (\<forall>d \<in> set (backoffs (fst (generateEmbedding provider maxRetries))). d \<le> 60000)
       \<and> snd (generateEmbedding provider maxRetries)
           = Inl (new_Error (rateLimitMessage maxRetries (errs (nat maxRetries - 1))))
       \<and> rateLimitMessage maxRetries (errs (nat maxRetries - 1))
           \<noteq> ''Failed to generate embedding after all retries''"
proof -
  have pos: "0 < nat maxRetries" using assms(1) by simp
  have run: "generateEmbedding provider maxRetries =
       (InitialDelay 20000
           # concat (map (\<lambda>k. [RetryAfterDelay 20000, BackoffDelay (backoffDelay k)])
                       [1..<nat maxRetries]),
        Inl (new_Error (rateLimitMessage maxRetries (errs (nat maxRetries - 1)))))"
    unfolding generateEmbedding_def using loop_throttled [OF assms(2) pos, of "[]"] by simp
  have b: "backoffs (fst (generateEmbedding provider maxRetries)) = map backoffDelay [1..<nat maxRetries]"
    by (simp add: run backoffs_concat)
  show ?thesis
    by (simp add: b sorted_backoffs backoffDelay_le) (simp add: run rateLimitMessage_def)
qed

theorem backoff_sequence_and_rate_limit_error_witness:
  "backoffs (fst (generateEmbedding (\<lambda>k. EmbedRejects throttled) 3)) = [20000, 40000]
   \<and> snd (generateEmbedding (\<lambda>k. EmbedRejects throttled) 3)
       = Inl (new_Error ''Rate limit exceeded after 3 attempts. Too Many Requests'')"
  using backoff_sequence_and_rate_limit_error [of 3 "\<lambda>k. EmbedRejects throttled" "\<lambda>k. throttled"]
  by (simp add: is429_def throttled_def backoffDelay_def rateLimitMessage_def string_of_int_def
        string_of_nat.simps detailOrMessage_def upt_conv_Cons)




section \<open>Properties of the entry point\<close>

lemma runService_known:
  assumes "distinct (map fst reg)" and "(key, config) \<in> set reg"
  shows "runService reg key trace =
     (case svc_run config of
        Inr result \<Rightarrow> (Inr (True, result), trace @ [svc_name config])
      | Inl err \<Rightarrow> (Inl err, trace @ [svc_name config]))"
proof -
  have "map_of reg key = Some config"
    using assms by (rule map_of_is_SomeI)
  then show ?thesis by (simp add: runService_def)
qed

lemma runAllServices_loop_all:
  assumes "distinct (map fst reg)"
  shows "set rest \<subseteq> set reg \<Longrightarrow>
     runAllServices_loop reg rest (results, trace) =
       (results @ map (\<lambda>(key, config). reportedAs config) rest,
        trace @ map (\<lambda>(key, config). svc_name config) rest)"
proof (induction rest arbitrary: results trace)
  case Nil
  then show ?case by simp
next
  case (Cons kc rest)
  obtain key config where kc: "kc = (key, config)" by (cases kc)
  have mem: "(key, config) \<in> set reg" and sub: "set rest \<subseteq> set reg"
    using Cons.prems kc by auto
  show ?case
    by (cases "svc_run config")
       (simp_all add: kc runService_known [OF assms mem] Cons.IH [OF sub] reportedAs_def)
qed

lemma runAllServices_eq:
  assumes "distinct (map fst reg)"
  shows "runAllServices reg =
     (list_all success (map (\<lambda>(key, config). reportedAs config) reg),
      map (\<lambda>(key, config). reportedAs config) reg,
      map (\<lambda>(key, config). svc_name config) reg)"
  by (simp add: runAllServices_def runAllServices_loop_all [OF assms])

text \<open>
  Claim C6. In a run over all sources (a registry with distinct keys), every source's
  method is called, in registry order, whether or not earlier sources threw; and the
  results list holds one entry per source, in the same order, where a source that threw
  is listed with \<open>success = false\<close> and its error message (\<open>Unknown error\<close> when the
  thrown value is not an \<open>Error\<close>), and a source that returned with \<open>success = true\<close>.
\<close>

theorem source_isolation:
  assumes "distinct (map fst reg)"
  shows "snd (snd (runAllServices reg)) = map (\<lambda>(key, config). svc_name config) reg
       \<and> fst (snd (runAllServices reg)) = map (\<lambda>(key, config). reportedAs config) reg"
  by (simp add: runAllServices_eq [OF assms])

theorem source_isolation_witness:
  "distinct (map fst (SERVICE_REGISTRY (Inl navigationTimeout) (Inr archerOk)))
   \<and> snd (snd (runAllServices (SERVICE_REGISTRY (Inl navigationTimeout) (Inr archerOk))))
       = [''Joby Aviation'', ''Archer Aviation'']
   \<and> fst (snd (runAllServices (SERVICE_REGISTRY (Inl navigationTimeout) (Inr archerOk))))
       = [\<lparr>service = ''Joby Aviation'', success = False,
           error = Some ''Navigation timeout of 120000 ms exceeded''\<rparr>,
          \<lparr>service = ''Archer Aviation'', success = True, error = None\<rparr>]"
  using source_isolation [of "SERVICE_REGISTRY (Inl navigationTimeout) (Inr archerOk)"]
  by (simp add: SERVICE_REGISTRY_def reportedAs_def navigationTimeout_def new_Error_def)






section \<open>Properties of the Joby run\<close>

text \<open>
  Processing items never touches the browser field, so the only statements that change
  it are the launch and the cleanup.
\<close>

lemma storeFetched_browser:
  "newsBrowser (snd (storeFetched e u w)) = newsBrowser w"
  by (auto simp: storeFetched_def Let_def split: option.splits sum.splits prod.splits)

lemma processAndStoreDirectUrl_browser:
  "newsBrowser (snd (processAndStoreDirectUrl e u useTracker w)) = newsBrowser w"
proof -
  have "newsBrowser (snd (processAndStoreDirectUrl_try e u useTracker w)) = newsBrowser w"
    by (auto simp: processAndStoreDirectUrl_try_def Let_def storeFetched_browser
          split: prod.splits)
  then show ?thesis
    by (auto simp: processAndStoreDirectUrl_def split: prod.splits sum.splits)
qed

lemma processArticles_browser:
  "newsBrowser (snd (snd (processArticles e articles (c, l, w)))) = newsBrowser w"
proof (induction articles arbitrary: c l w)
  case Nil
  then show ?case by simp
next
  case (Cons article rest)
  obtain result w' where r: "processAndStoreArticle e article True w = (result, w')"
    by (cases "processAndStoreArticle e article True w")
  then have "newsBrowser w' = newsBrowser w"
    using processAndStoreDirectUrl_browser [of e "a_url article" True w]
    by (simp add: processAndStoreArticle_def)
  then show ?case
    by (simp add: r Cons.IH)
qed

lemma processCategories_browser:
  "newsBrowser (snd (processCategories e categories (l, w))) = newsBrowser w"
proof (induction categories arbitrary: l w)
  case Nil
  then show ?case by simp
next
  case (Cons category rest)
  show ?case
  proof (cases "enumerate e category")
    case (Inl err)
    then show ?thesis by simp
  next
    case (Inr articles)
    obtain c l1 w1 where p: "processArticles e articles
        (\<lparr>processedCount = 0, skippedCount = 0, failedCount = 0\<rparr>, l, w) = (c, l1, w1)"
      by (metis prod_cases3)
    have "newsBrowser w1 = newsBrowser w"
      using processArticles_browser
              [of e articles "\<lparr>processedCount = 0, skippedCount = 0, failedCount = 0\<rparr>" l w]
      by (simp add: p)
    then show ?thesis
      by (simp add: Inr p Cons.IH)
  qed
qed

lemma initializeNewsBrowser_launched:
  "launchFails e = None \<Longrightarrow> newsBrowser (snd (initializeNewsBrowser e w))"
  by (simp add: initializeNewsBrowser_def Let_def split: option.splits)

text \<open>Once the launch has succeeded, every exit by an error leaves the browser open.\<close>

lemma left_open_on_any_error:
  assumes "launchFails e = None" and "fst (processJobySpecificData e w) = Inl err"
  shows "newsBrowser (snd (processJobySpecificData e w))"
proof -
  obtain r w1 where i: "initializeNewsBrowser e w = (r, w1)"
    by (cases "initializeNewsBrowser e w")
  have b: "newsBrowser w1"
    using initializeNewsBrowser_launched [OF assms(1), of w] by (simp add: i)
  show ?thesis
  proof (cases r)
    case (Inl a)
    then show ?thesis using b by (simp add: processJobySpecificData_def i)
  next
    case (Inr u)
    let ?w2 = "w1\<lparr>tracker := new_DuplicateTracker 5 ''news_duplicate''\<rparr>"
    let ?l0 = "\<lparr>totalProcessed = 0, totalSkipped = 0, totalFailed = 0,
                 categoryResults = [], allProcessedDocuments = [], stoppedEarly = False\<rparr>"
    obtain r' w3 where p: "processCategories e [''press-releases'', ''blog-posts''] (?l0, ?w2) = (r', w3)"
      by (cases "processCategories e [''press-releases'', ''blog-posts''] (?l0, ?w2)")
    have "newsBrowser (snd (processCategories e [''press-releases'', ''blog-posts''] (?l0, ?w2)))
            = newsBrowser ?w2"
      by (rule processCategories_browser)
    then have b3: "newsBrowser w3" using b by (simp add: p del: processCategories.simps)
    show ?thesis
      using assms(2) b3
      by (cases r') (simp_all add: processJobySpecificData_def i Inr p Let_def del: processCategories.simps)
  qed
qed

text \<open>
  Whatever the environment, an item whose embedding fails is not processed and the store
  is left as it was.
\<close>

lemma embedding_failure_never_stores:
  assumes "fetch e u = Some fc"
    and "snd (generateEmbedding (embed e (c_content fc)) 3) = Inl err"
  shows "\<not> processed (fst (processAndStoreDirectUrl e u useTracker w))
       \<and> store (snd (processAndStoreDirectUrl e u useTracker w)) = store w"
proof -
  have s: "\<And>w. store (snd (storeFetched e u w)) = store w
              \<and> (\<forall>r. fst (storeFetched e u w) = Inr r \<longrightarrow> \<not> processed r)"
    using assms by (auto simp: storeFetched_def)
  show ?thesis
    using s [of w] s [of "w\<lparr>tracker := snd (processCheck (selectCount e (store w) (tableName (tracker w)) u) (tracker w))\<rparr>"]
    by (auto simp: processAndStoreDirectUrl_def processAndStoreDirectUrl_try_def Let_def
          split: prod.splits sum.splits if_splits)
qed

text \<open>
  Claim C2 says a document is still stored, with an empty vector, when embedding fails.
  The Joby service does not do that: when the provider rejects with a server error, or
  with 429 on every attempt, \<open>generateEmbedding\<close> throws, the \<open>catch\<close> of
  \<open>processAndStoreDirectUrl\<close> returns \<open>processed = false\<close>, nothing is inserted into
  \<open>news\<close>, and the run reports no processed item.
\<close>

theorem embedding_failure_discards_article:
  "fst (processAndStoreDirectUrl (healthy\<lparr>embed := (\<lambda>content k. EmbedRejects serverError)\<rparr>)
          ''A'' True (started emptyStore)) = \<lparr>processed = False, itemIsDuplicate = False\<rparr>
   \<and> store (snd (processAndStoreDirectUrl
                    (healthy\<lparr>embed := (\<lambda>content k. EmbedRejects serverError)\<rparr>)
                    ''A'' True (started emptyStore))) ''news'' = []
   \<and> fst (processAndStoreDirectUrl (healthy\<lparr>embed := (\<lambda>content k. EmbedRejects throttled)\<rparr>)
          ''A'' True (started emptyStore)) = \<lparr>processed = False, itemIsDuplicate = False\<rparr>
   \<and> store (snd (processAndStoreDirectUrl
                    (healthy\<lparr>embed := (\<lambda>content k. EmbedRejects throttled)\<rparr>)
                    ''A'' True (started emptyStore))) ''news'' = []
   \<and> map_sum id sum_processed
        (fst (processJobySpecificData (oneArticle\<lparr>embed := (\<lambda>content k. EmbedRejects serverError)\<rparr>)
                (idle emptyStore))) = Inr 0"
  by code_simp

text \<open>
  Claim C3 says a second store attempt for a url is a duplicate or skip and the write is
  idempotent on the url. In the Joby service the write is an \<open>insert\<close>. After one run has
  stored \<open>A\<close> in \<open>news\<close>, the run's tracker (which queries \<open>news_duplicate\<close>) does not see
  it, so the next run fetches, embeds and inserts \<open>A\<close> again: with a unique \<open>url\<close> the
  insert's error is thrown and the item comes back with \<open>isDuplicate = false\<close>; without
  it the table holds the url twice. A failed existence query (fail open) leads to the
  same insert.
\<close>

theorem second_insert_is_an_error:
  "map row_url (storedOnce ''news'') = [''A'']
   \<and> fst (storeNews healthy (mkRow ''A'') storedOnce) = Inl uniqueViolation
   \<and> fst (processAndStoreDirectUrl_try oneArticle ''A'' True (started storedOnce))
       = Inl uniqueViolation
   \<and> fst (processAndStoreDirectUrl oneArticle ''A'' True (started storedOnce))
       = \<lparr>processed = False, itemIsDuplicate = False\<rparr>
   \<and> map row_url (store (snd (processAndStoreDirectUrl (oneArticle\<lparr>urlUnique := False\<rparr>) ''A'' True
                                 (started storedOnce))) ''news'') = [''A'', ''A'']
   \<and> fst (processAndStoreDirectUrl_try (oneArticle\<lparr>lookupFault := (\<lambda>u. Some Rejects)\<rparr>) ''A'' False
            (started storedOnce)) = Inl uniqueViolation"
  by code_simp

text \<open>
  Claim C5 expects the report \<open>processed = 2, skipped = 5\<close> for the candidates \<open>A\<close> to
  \<open>H\<close> with \<open>C\<close> to \<open>G\<close> stored. The run does stop at \<open>G\<close> with \<open>stoppedEarly\<close> and 5
  consecutive duplicates, and lists \<open>A\<close> and \<open>B\<close> as documents, but it reports
  \<open>processed = 0\<close> and \<open>skipped = 0\<close>: the category's counters, 2 processed and 4
  skipped (\<open>G\<close> is not counted), are never added to the totals after an early stop.
\<close>

theorem early_stop_report_drops_counts:
  "fst (processJobySpecificData scenarioEnv (idle scenarioStore)) =
     Inr \<lparr>sum_success = False, sum_totalDocuments = 2, sum_processed = 0,
           sum_skipped = 0, sum_failed = 0, sum_stoppedEarly = True,
           sum_consecutiveDuplicates = 5, sum_categoryResults = [],
           sum_documents = [mkArticle ''A'', mkArticle ''B'']\<rparr>
   \<and> fst (processArticles scenarioEnv
            (map mkArticle [''A'', ''B'', ''C'', ''D'', ''E'', ''F'', ''G'', ''H''])
            (\<lparr>processedCount = 0, skippedCount = 0, failedCount = 0\<rparr>,
             \<lparr>totalProcessed = 0, totalSkipped = 0, totalFailed = 0, categoryResults = [],
              allProcessedDocuments = [], stoppedEarly = False\<rparr>,
             started scenarioStore))
       = \<lparr>processedCount = 2, skippedCount = 4, failedCount = 0\<rparr>"
  by code_simp

text \<open>
  Claim C7 says the browser is released on every exit path. When the navigation of the
  first category throws, \<open>processJobySpecificData\<close> rethrows with the browser and the
  page still open; when closing the page throws during cleanup, the run returns with the
  browser still open. Only a run that returns and whose closes succeed releases both.
\<close>

theorem browser_left_open_on_error:
  "fst (processJobySpecificData (healthy\<lparr>enumerate := (\<lambda>category. Inl navigationTimeout)\<rparr>)
          (idle emptyStore)) = Inl navigationTimeout
   \<and> newsBrowser (snd (processJobySpecificData
                          (healthy\<lparr>enumerate := (\<lambda>category. Inl navigationTimeout)\<rparr>)
                          (idle emptyStore)))
   \<and> newsPage (snd (processJobySpecificData
                       (healthy\<lparr>enumerate := (\<lambda>category. Inl navigationTimeout)\<rparr>)
                       (idle emptyStore)))
   \<and> newsBrowser (snd (processJobySpecificData
                          (healthy\<lparr>pageCloseFails := Some navigationTimeout\<rparr>) (idle emptyStore)))
   \<and> \<not> newsBrowser (snd (processJobySpecificData healthy (idle emptyStore)))"
  by code_simp

text \<open>What the code does guarantee: a run that returns has closed both, if closing works.\<close>

lemma released_on_return:
  assumes "fst (processJobySpecificData e w) = Inr s"
    and "pageCloseFails e = None" and "browserCloseFails e = None"
  shows "\<not> newsBrowser (snd (processJobySpecificData e w))
       \<and> \<not> newsPage (snd (processJobySpecificData e w))"
  using assms unfolding processJobySpecificData_def
  by (auto simp: cleanupNewsBrowser_def Let_def split: prod.splits sum.splits option.splits if_splits)


end
